theory Spec2Isabelle
  imports Complex_Main "HOL-Library.Word" "HOL-Library.Multiset"
begin

text \<open>
  The school registry: the validators \<open>validateCoordinates\<close> and
  \<open>validateSchoolData\<close>, the distance \<open>calculateDistance\<close> and the handlers
  \<open>addSchool\<close> and \<open>listSchools\<close>, translated from the controller and the utility
  functions it imports, over JavaScript values and over the table \<open>schools\<close> that the
  handlers reach through \<open>pool\<close>.
\<close>

section \<open>JavaScript values\<close>

text \<open>
  A JavaScript string is a sequence of UTF-16 code units. \<open>utf16\<close> writes an ASCII
  literal as such a sequence.
\<close>

type_synonym jsstring = "16 word list"

definition utf16 :: "string \<Rightarrow> jsstring" where
  "utf16 s = map of_char s"

text \<open>
  A JavaScript number is an IEEE double. The model keeps the three special values apart
  and takes a finite number as the real it denotes; the two zeros are one. The rounding
  of a decimal literal to the nearest double is not modelled. The arithmetic of
  \<open>calculateDistance\<close> is a parameter of the model, so its rounding is left open.
\<close>

datatype jsnum = NaN | PosInf | NegInf | Fin real

text \<open>
  The values a parsed JSON body or a parsed query string can hold. \<open>Obj s\<close> is an
  object or an array; \<open>s\<close> is the string that \<open>ToString\<close> gives for it.
\<close>

datatype jsval = Undefined | Null | Bool bool | Num jsnum | Str jsstring | Obj jsstring

fun negate :: "jsnum \<Rightarrow> jsnum" where
  "negate NaN = NaN"
| "negate PosInf = NegInf"
| "negate NegInf = PosInf"
| "negate (Fin x) = Fin (- x)"

subsection \<open>\<open>String.prototype.trim\<close>\<close>

text \<open>
  ECMAScript \<open>WhiteSpace\<close> and \<open>LineTerminator\<close>: TAB, LF, VT, FF, CR, SP, NBSP,
  U+1680, U+2000..U+200A, LS, PS, U+202F, U+205F, U+3000 and U+FEFF.
\<close>

definition isWhiteSpace :: "16 word \<Rightarrow> bool" where
  "isWhiteSpace c =
     (c = 0x9 \<or> c = 0xA \<or> c = 0xB \<or> c = 0xC \<or> c = 0xD \<or> c = 0x20 \<or> c = 0xA0 \<or>
      c = 0x1680 \<or> (0x2000 \<le> c \<and> c \<le> 0x200A) \<or> c = 0x2028 \<or> c = 0x2029 \<or>
      c = 0x202F \<or> c = 0x205F \<or> c = 0x3000 \<or> c = 0xFEFF)"

definition trimStart :: "jsstring \<Rightarrow> jsstring" where
  "trimStart s = dropWhile isWhiteSpace s"

definition trim :: "jsstring \<Rightarrow> jsstring" where
  "trim s = rev (dropWhile isWhiteSpace (rev (dropWhile isWhiteSpace s)))"

subsection \<open>\<open>parseFloat\<close>\<close>

text \<open>
  \<open>parseFloat\<close> drops leading white space and reads the longest prefix that is a
  \<open>StrDecimalLiteral\<close>:
  \<^verbatim>\<open>
  StrDecimalLiteral         ::: [+-]? StrUnsignedDecimalLiteral
  StrUnsignedDecimalLiteral ::: Infinity
                              | DecimalDigits . DecimalDigits? ExponentPart?
                              | . DecimalDigits ExponentPart?
                              | DecimalDigits ExponentPart?
  ExponentPart              ::: [eE] [+-]? DecimalDigits
  \<close>
  Each reader below returns what it read together with the rest of the string.
\<close>

definition isDigit :: "16 word \<Rightarrow> bool" where
  "isDigit c = (0x30 \<le> c \<and> c \<le> 0x39)"

definition digitValue :: "16 word \<Rightarrow> nat" where
  "digitValue c = unat c - 48"

definition digitsValue :: "jsstring \<Rightarrow> nat" where
  "digitsValue ds = foldl (\<lambda>n c. 10 * n + digitValue c) 0 ds"

text \<open>An optional sign: \<open>True\<close> for \<open>-\<close> (0x2D); \<open>+\<close> is 0x2B.\<close>

definition signPart :: "jsstring \<Rightarrow> bool \<times> jsstring" where
  "signPart s =
     (case s of
        [] \<Rightarrow> (False, [])
      | c # r \<Rightarrow> if c = 0x2D then (True, r) else if c = 0x2B then (False, r) else (False, s))"

text \<open>
  An optional exponent part, \<open>e\<close> (0x65) or \<open>E\<close> (0x45), a sign and at least one
  digit; when the digits are missing nothing is read.
\<close>

definition exponentPart :: "jsstring \<Rightarrow> int \<times> jsstring" where
  "exponentPart s =
     (case s of
        [] \<Rightarrow> (0, [])
      | c # r \<Rightarrow>
          if c = 0x65 \<or> c = 0x45 then
            (let (neg, r') = signPart r; ds = takeWhile isDigit r'
             in if ds = [] then (0, s)
                else (if neg then - int (digitsValue ds) else int (digitsValue ds),
                      dropWhile isDigit r'))
          else (0, s))"

text \<open>
  An optional fraction part: a dot (0x2E) and the digits after it. The dot is read when
  digits stand before it (\<open>digitsBefore\<close>) or after it.
\<close>

definition fractionPart :: "bool \<Rightarrow> jsstring \<Rightarrow> jsstring \<times> jsstring" where
  "fractionPart digitsBefore s =
     (case s of
        [] \<Rightarrow> ([], [])
      | c # r \<Rightarrow>
          if c = 0x2E \<and> (digitsBefore \<or> takeWhile isDigit r \<noteq> [])
          then (takeWhile isDigit r, dropWhile isDigit r)
          else ([], s))"

text \<open>
  The alternatives of the unsigned literal that start with a digit or a dot. The value
  is the digits read as a decimal fraction, scaled by the exponent.
\<close>

definition decimalLiteral :: "jsstring \<Rightarrow> (jsnum \<times> jsstring) option" where
  "decimalLiteral s =
     (let ip = takeWhile isDigit s;
          (fp, r2) = fractionPart (ip \<noteq> []) (dropWhile isDigit s)
      in if ip = [] \<and> fp = [] then None
         else
           let (ex, r3) = exponentPart r2;
               m = real (digitsValue (ip @ fp)) / 10 ^ length fp
           in Some (Fin (if 0 \<le> ex then m * 10 ^ nat ex else m / 10 ^ nat (- ex)), r3))"

definition strUnsignedDecimalLiteral :: "jsstring \<Rightarrow> (jsnum \<times> jsstring) option" where
  "strUnsignedDecimalLiteral s =
     (if take 8 s = utf16 ''Infinity'' then Some (PosInf, drop 8 s)
      else decimalLiteral s)"

definition strDecimalLiteral :: "jsstring \<Rightarrow> (jsnum \<times> jsstring) option" where
  "strDecimalLiteral s =
     (let (neg, r) = signPart s
      in case strUnsignedDecimalLiteral r of
           None \<Rightarrow> None
         | Some (v, rest) \<Rightarrow> Some (if neg then negate v else v, rest))"

definition parseFloatString :: "jsstring \<Rightarrow> jsnum" where
  "parseFloatString s =
     (case strDecimalLiteral (trimStart s) of None \<Rightarrow> NaN | Some (v, rest) \<Rightarrow> v)"

text \<open>
  \<open>parseFloat\<close> converts its argument to a string first. For a number that string
  reads back as the number itself; \<open>"undefined"\<close>, \<open>"null"\<close>, \<open>"true"\<close> and
  \<open>"false"\<close> have no numeric prefix.
\<close>

fun parseFloat :: "jsval \<Rightarrow> jsnum" where
  "parseFloat (Str s) = parseFloatString s"
| "parseFloat (Num n) = n"
| "parseFloat (Obj s) = parseFloatString s"
| "parseFloat Undefined = NaN"
| "parseFloat Null = NaN"
| "parseFloat (Bool b) = NaN"

section \<open>Validation results\<close>

text \<open>
  The validators return \<^verbatim>\<open>{ isValid: false, message }\<close> or
  \<^verbatim>\<open>{ isValid: true, lat, lon }\<close>.
\<close>

datatype validation = Invalid string | Valid real real

definition msg_name :: string where
  "msg_name = ''Name is required and must be at least 3 characters long''"

definition msg_address :: string where
  "msg_address = ''Address is required and must be at least 5 characters long''"

definition msg_required :: string where
  "msg_required = ''Latitude and longitude are required and must not be empty''"

definition msg_latitude :: string where
  "msg_latitude = ''Latitude must be a valid number between -90 and 90''"

definition msg_longitude :: string where
  "msg_longitude = ''Longitude must be a valid number between -180 and 180''"

definition msg_no_db :: string where
  "msg_no_db = ''Database connection is not available''"

definition msg_duplicate :: string where
  "msg_duplicate = ''School with the same name and address already exists''"

definition msg_db_error :: string where
  "msg_db_error = ''Error checking for duplicates''"

section \<open>\<open>validateCoordinates\<close>\<close>

text \<open>
  The guard
  \<^verbatim>\<open>typeof v !== "number" || isNaN(v) || !isFinite(v) || v < lo || v > hi\<close>:
  \<open>None\<close> when it fires, the finite number otherwise.
\<close>

fun numberWithin :: "jsval \<Rightarrow> real \<Rightarrow> real \<Rightarrow> real option" where
  "numberWithin (Num NaN) lo hi = None"
| "numberWithin (Num PosInf) lo hi = None"
| "numberWithin (Num NegInf) lo hi = None"
| "numberWithin (Num (Fin x)) lo hi = (if x < lo \<or> x > hi then None else Some x)"
| "numberWithin v lo hi = None"

text \<open>
  \<^verbatim>\<open>typeof v === "string" ? parseFloat(v.trim()) : v\<close>
\<close>

fun parseIfString :: "jsval \<Rightarrow> jsval" where
  "parseIfString (Str s) = Num (parseFloat (Str (trim s)))"
| "parseIfString v = v"

text \<open>The first check of both validators: a strict comparison with the empty string.\<close>

definition notProvided :: "jsval \<Rightarrow> jsval \<Rightarrow> bool" where
  "notProvided latitude longitude =
     (latitude = Undefined \<or> longitude = Undefined \<or>
      latitude = Null \<or> longitude = Null \<or>
      latitude = Str [] \<or> longitude = Str [])"

definition validateCoordinates :: "jsval \<Rightarrow> jsval \<Rightarrow> validation" where
  "validateCoordinates latitude longitude =
     (if notProvided latitude longitude then Invalid msg_required
      else
        let lat = parseIfString latitude;
            lon = parseIfString longitude
        in case numberWithin lat (- 90) 90 of
             None \<Rightarrow> Invalid msg_latitude
           | Some x \<Rightarrow>
               (case numberWithin lon (- 180) 180 of
                  None \<Rightarrow> Invalid msg_longitude
                | Some y \<Rightarrow> Valid x y))"

section \<open>The store\<close>

text \<open>
  A row of the table \<open>schools\<close> (columns \<open>id\<close>, \<open>name\<close>, \<open>address\<close>,
  \<open>latitude\<close>, \<open>longitude\<close>); of the two numeric columns the row keeps the number
  held, which is what the arithmetic of \<open>calculateDistance\<close> reads from them.
\<close>

record school =
  row_id :: nat
  row_name :: jsstring
  row_address :: jsstring
  row_latitude :: real
  row_longitude :: real

text \<open>The three SQL statements of the controller, with their parameters.\<close>

datatype statement =
    SelectIdByNameAddress jsstring jsstring
  | InsertSchool jsval jsval jsnum jsnum
  | SelectAll

text \<open>
  Modelled from the spec: the store collaborator behind \<open>pool\<close> (module \<open>../db\<close>
  and the MySQL server, neither under src/), with the contract
  \<open>exists_by_name_address\<close>, \<open>insert(name, address, lat, lon) -> generated_id\<close>
  and \<open>fetch_all\<close>, each of which may fail. The state holds the table, the next
  generated id, for each coming statement whether it throws (\<open>faults\<close>; none left
  means no failure), the statements sent so far (\<open>issued\<close>), and the equality the
  server's collation uses for \<open>name = ?\<close> and \<open>address = ?\<close>.
\<close>

record store =
  rows :: "school list"
  next_id :: nat
  faults :: "bool list"
  issued :: "statement list"
  collation :: "jsstring \<Rightarrow> jsstring \<Rightarrow> bool"

text \<open>Sending a statement records it and tells whether it went through.\<close>

definition issue :: "statement \<Rightarrow> store \<Rightarrow> bool \<times> store" where
  "issue q s =
     (case faults s of
        [] \<Rightarrow> (True, s\<lparr>issued := issued s @ [q]\<rparr>)
      | f # fs \<Rightarrow> (\<not> f, s\<lparr>faults := fs, issued := issued s @ [q]\<rparr>))"

text \<open>
  \<^verbatim>\<open>db.execute("SELECT id FROM schools WHERE name = ? AND address = ?", [n, a])\<close>:
  the matching rows, or \<open>None\<close> when the call throws.
\<close>

definition selectByNameAddress :: "jsstring \<Rightarrow> jsstring \<Rightarrow> store \<Rightarrow> school list option \<times> store" where
  "selectByNameAddress n a s =
     (let (ok, s') = issue (SelectIdByNameAddress n a) s
      in if ok
         then (Some (filter (\<lambda>r. collation s (row_name r) n \<and> collation s (row_address r) a)
                       (rows s)), s')
         else (None, s'))"

text \<open>
  What the columns of a new row take from the parameters of the insert: texts for the
  two text columns and finite numbers for the two numeric ones.
\<close>

fun columns :: "jsval \<Rightarrow> jsval \<Rightarrow> jsnum \<Rightarrow> jsnum \<Rightarrow> (jsstring \<times> jsstring \<times> real \<times> real) option" where
  "columns (Str n) (Str a) (Fin x) (Fin y) = Some (n, a, x, y)"
| "columns n a x y = None"

text \<open>
  \<^verbatim>\<open>pool.query("INSERT INTO schools (name, address, latitude, longitude) VALUES (?, ?, ?, ?)", ...)\<close>:
  the generated id, or \<open>None\<close> when the call throws. The row is appended with the
  parameters as they are given.
\<close>

definition insertSchool :: "jsval \<Rightarrow> jsval \<Rightarrow> jsnum \<Rightarrow> jsnum \<Rightarrow> store \<Rightarrow> nat option \<times> store" where
  "insertSchool n a lat lon s =
     (let (ok, s') = issue (InsertSchool n a lat lon) s
      in case (if ok then columns n a lat lon else None) of
           None \<Rightarrow> (None, s')
         | Some (nm, ad, x, y) \<Rightarrow>
             (Some (next_id s),
              s'\<lparr>rows := rows s @ [\<lparr>row_id = next_id s, row_name = nm, row_address = ad,
                                     row_latitude = x, row_longitude = y\<rparr>],
                 next_id := Suc (next_id s)\<rparr>))"

text \<open>
  \<^verbatim>\<open>pool.query("SELECT id, name, address, latitude, longitude FROM schools")\<close>
\<close>

definition selectAll :: "store \<Rightarrow> school list option \<times> store" where
  "selectAll s =
     (let (ok, s') = issue SelectAll s
      in if ok then (Some (rows s), s') else (None, s'))"

text \<open>
  The handle \<open>db\<close> given to the validator: \<open>NoExecute\<close> stands for a handle that is
  falsy or has no function \<open>execute\<close>.
\<close>

datatype db_handle = NoExecute | Pool

section \<open>\<open>validateSchoolData\<close>\<close>

text \<open>The request body, destructured; a field that is missing is \<open>Undefined\<close>.\<close>

record school_data =
  name :: jsval
  address :: jsval
  latitude :: jsval
  longitude :: jsval

text \<open>
  The guard \<^verbatim>\<open>!v || typeof v !== "string" || v.trim().length < n\<close>: \<open>None\<close> when
  it fires, the string otherwise. Among strings only the empty one is falsy.
\<close>

fun textOfLength :: "jsval \<Rightarrow> nat \<Rightarrow> jsstring option" where
  "textOfLength (Str s) n = (if s = [] \<or> length (trim s) < n then None else Some s)"
| "textOfLength v n = None"

text \<open>
  The \<^verbatim>\<open>try\<close> block that ends the validator: the handle is checked, the store is
  asked for rows with the trimmed name and address, and the validated coordinates are
  returned when there is none.
\<close>

definition checkDuplicate :: "jsstring \<Rightarrow> jsstring \<Rightarrow> real \<Rightarrow> real \<Rightarrow> db_handle \<Rightarrow> store \<Rightarrow> validation \<times> store" where
  "checkDuplicate nm ad lat lon db st =
     (if db = NoExecute then (Invalid msg_no_db, st)
      else
        case selectByNameAddress (trim nm) (trim ad) st of
          (None, st') \<Rightarrow> (Invalid msg_db_error, st')
        | (Some found, st') \<Rightarrow>
            if length found > 0 then (Invalid msg_duplicate, st') else (Valid lat lon, st'))"

definition validateSchoolData :: "school_data \<Rightarrow> db_handle \<Rightarrow> store \<Rightarrow> validation \<times> store" where
  "validateSchoolData schoolData db st =
     (case textOfLength (name schoolData) 3 of
        None \<Rightarrow> (Invalid msg_name, st)
      | Some nm \<Rightarrow>
     (case textOfLength (address schoolData) 5 of
        None \<Rightarrow> (Invalid msg_address, st)
      | Some ad \<Rightarrow>
     if latitude schoolData = Undefined \<or> longitude schoolData = Undefined \<or>
        latitude schoolData = Null \<or> longitude schoolData = Null \<or>
        latitude schoolData = Str [] \<or> longitude schoolData = Str []
     then (Invalid msg_required, st)
     else
       let lat = (case latitude schoolData of Str s \<Rightarrow> Num (parseFloat (Str (trim s))) | v \<Rightarrow> v);
           lon = (case longitude schoolData of Str s \<Rightarrow> Num (parseFloat (Str (trim s))) | v \<Rightarrow> v)
       in case numberWithin lat (- 90) 90 of
            None \<Rightarrow> (Invalid msg_latitude, st)
          | Some x \<Rightarrow>
              (case numberWithin lon (- 180) 180 of
                 None \<Rightarrow> (Invalid msg_longitude, st)
               | Some y \<Rightarrow> checkDuplicate nm ad x y db st)))"

section \<open>\<open>addSchool\<close>\<close>

datatype add_response =
    Created nat jsval jsval jsnum jsnum
  | ValidationFailed string
  | InternalError

fun status :: "add_response \<Rightarrow> nat" where
  "status (Created insertId n a lat lon) = 201"
| "status (ValidationFailed m) = 400"
| "status InternalError = 500"

text \<open>
  The handler, given the imported \<open>pool\<close> and \<open>req.body\<close>. A body that is
  \<open>undefined\<close> (\<open>None\<close>) makes the destructuring in the validator throw, and any
  throw ends in the handler's \<open>catch\<close> with status 500.
\<close>

definition addSchool :: "db_handle \<Rightarrow> school_data option \<Rightarrow> store \<Rightarrow> add_response \<times> store" where
  "addSchool pool body st =
     (case body of
        None \<Rightarrow> (InternalError, st)
      | Some schoolData \<Rightarrow>
          (case validateSchoolData schoolData pool st of
             (Invalid m, st') \<Rightarrow> (ValidationFailed m, st')
           | (Valid lat lon, st') \<Rightarrow>
               (case insertSchool (name schoolData) (address schoolData)
                       (parseFloat (latitude schoolData)) (parseFloat (longitude schoolData)) st' of
                  (None, st'') \<Rightarrow> (InternalError, st'')
                | (Some insertId, st'') \<Rightarrow>
                    (Created insertId (name schoolData) (address schoolData)
                       (parseFloat (latitude schoolData)) (parseFloat (longitude schoolData)),
                     st''))))"

section \<open>\<open>calculateDistance\<close>\<close>

text \<open>
  The double arithmetic of the engine that runs the code: the operators \<open>+\<close>, \<open>-\<close>,
  \<open>*\<close> and \<open>/\<close>, \<open>Math.sin\<close>, \<open>Math.cos\<close>, \<open>Math.sqrt\<close>,
  \<open>Math.atan2\<close> and \<open>Math.PI\<close>. They are no part of the repository, and each
  rounds its result. \<open>calculateDistance\<close> takes them as a parameter: what is proved of
  it for every such arithmetic holds for the engine's.
\<close>

record arith =
  fadd :: "jsnum \<Rightarrow> jsnum \<Rightarrow> jsnum"
  fsub :: "jsnum \<Rightarrow> jsnum \<Rightarrow> jsnum"
  fmul :: "jsnum \<Rightarrow> jsnum \<Rightarrow> jsnum"
  fdiv :: "jsnum \<Rightarrow> jsnum \<Rightarrow> jsnum"
  fsin :: "jsnum \<Rightarrow> jsnum"
  fcos :: "jsnum \<Rightarrow> jsnum"
  fsqrt :: "jsnum \<Rightarrow> jsnum"
  fatan2 :: "jsnum \<Rightarrow> jsnum \<Rightarrow> jsnum"
  fpi :: jsnum

text \<open>\<^verbatim>\<open>const toRadians = (degrees) => degrees * Math.PI / 180\<close>\<close>

definition toRadians :: "arith \<Rightarrow> jsnum \<Rightarrow> jsnum" where
  "toRadians fp degrees = fdiv fp (fmul fp degrees (fpi fp)) (Fin 180)"

text \<open>
  The products are taken from the left, as JavaScript takes them. A negative argument of
  \<open>Math.sqrt\<close> gives NaN, and NaN goes through \<open>Math.atan2\<close> and the products to
  the result.
\<close>

definition calculateDistance :: "arith \<Rightarrow> jsnum \<Rightarrow> jsnum \<Rightarrow> jsnum \<Rightarrow> jsnum \<Rightarrow> jsnum" where
  "calculateDistance fp lat1 lon1 lat2 lon2 =
     (let dLat = toRadians fp (fsub fp lat2 lat1);
          dLon = toRadians fp (fsub fp lon2 lon1);
          lat1' = toRadians fp lat1;
          lat2' = toRadians fp lat2;
          a = fadd fp
                (fmul fp (fsin fp (fdiv fp dLat (Fin 2))) (fsin fp (fdiv fp dLat (Fin 2))))
                (fmul fp
                   (fmul fp
                      (fmul fp (fsin fp (fdiv fp dLon (Fin 2))) (fsin fp (fdiv fp dLon (Fin 2))))
                      (fcos fp lat1'))
                   (fcos fp lat2'));
          c = fmul fp (Fin 2) (fatan2 fp (fsqrt fp a) (fsqrt fp (fsub fp (Fin 1) a)));
          R = Fin 6371
      in fmul fp R c)"

section \<open>\<open>listSchools\<close>\<close>

text \<open>
  \<^verbatim>\<open>parseFloat(distance.toFixed(2))\<close>: the number with two decimals nearest to the
  distance, the larger one at a tie; \<open>toFixed\<close> rounds the absolute value and puts the
  sign back. From \<open>10\<^sup>2\<^sup>1\<close> on, and for NaN and the infinities, \<open>toFixed\<close> prints the
  number as \<open>ToString\<close> does, which parses back to the number.
\<close>

fun toFixed2 :: "jsnum \<Rightarrow> jsnum" where
  "toFixed2 (Fin x) =
     (if 10 ^ 21 \<le> \<bar>x\<bar> then Fin x
      else if x < 0 then Fin (- (real_of_int \<lfloor>- x * 100 + 1 / 2\<rfloor> / 100))
      else Fin (real_of_int \<lfloor>x * 100 + 1 / 2\<rfloor> / 100))"
| "toFixed2 n = n"

text \<open>A row with the rounded distance attached: \<^verbatim>\<open>{ ...school, distance }\<close>.\<close>

record ranked = school +
  distance :: jsnum

definition withDistance :: "arith \<Rightarrow> real \<Rightarrow> real \<Rightarrow> school \<Rightarrow> ranked" where
  "withDistance fp userLat userLon school =
     \<lparr>row_id = row_id school, row_name = row_name school, row_address = row_address school,
      row_latitude = row_latitude school, row_longitude = row_longitude school,
      distance = toFixed2 (calculateDistance fp (Fin userLat) (Fin userLon)
                             (Fin (row_latitude school)) (Fin (row_longitude school)))\<rparr>"

text \<open>
  The subtraction of the comparator and the tests \<open>0 < v\<close> and \<open>v \<le> w\<close>. The sort
  reads only the sign of the difference, and the difference of two doubles has the sign
  of their exact difference.
\<close>

fun minus_num :: "jsnum \<Rightarrow> jsnum \<Rightarrow> jsnum" where
  "minus_num (Fin x) (Fin y) = Fin (x - y)"
| "minus_num NaN w = NaN"
| "minus_num v NaN = NaN"
| "minus_num PosInf PosInf = NaN"
| "minus_num NegInf NegInf = NaN"
| "minus_num PosInf w = PosInf"
| "minus_num NegInf w = NegInf"
| "minus_num (Fin x) PosInf = NegInf"
| "minus_num (Fin x) NegInf = PosInf"

fun positive :: "jsnum \<Rightarrow> bool" where
  "positive (Fin x) = (0 < x)"
| "positive PosInf = True"
| "positive v = False"

fun le_num :: "jsnum \<Rightarrow> jsnum \<Rightarrow> bool" where
  "le_num (Fin x) (Fin y) = (x \<le> y)"
| "le_num NaN w = False"
| "le_num v NaN = False"
| "le_num NegInf w = True"
| "le_num v PosInf = True"
| "le_num v w = False"

text \<open>
  \<open>Array.prototype.sort\<close> with a comparator. ECMAScript requires the sort to be stable,
  and takes a comparator result that is NaN as zero; with a consistent comparator the
  result is the one stable ordering, computed here by insertion from the right. An element
  moves behind another only when the comparator is positive.
\<close>

fun insertSorted :: "('a \<Rightarrow> 'a \<Rightarrow> jsnum) \<Rightarrow> 'a \<Rightarrow> 'a list \<Rightarrow> 'a list" where
  "insertSorted cmp x [] = [x]"
| "insertSorted cmp x (y # ys) =
     (if positive (cmp x y) then y # insertSorted cmp x ys else x # y # ys)"

fun Array_sort :: "('a \<Rightarrow> 'a \<Rightarrow> jsnum) \<Rightarrow> 'a list \<Rightarrow> 'a list" where
  "Array_sort cmp [] = []"
| "Array_sort cmp (x # xs) = insertSorted cmp x (Array_sort cmp xs)"

text \<open>The comparator \<^verbatim>\<open>(a, b) => a.distance - b.distance\<close>.\<close>

definition byDistance :: "ranked \<Rightarrow> ranked \<Rightarrow> jsnum" where
  "byDistance a b = minus_num (distance a) (distance b)"

text \<open>The ranking of the handler: first the map that attaches the distances, then the sort.\<close>

definition rankSchools :: "arith \<Rightarrow> real \<Rightarrow> real \<Rightarrow> school list \<Rightarrow> ranked list" where
  "rankSchools fp userLat userLon schools =
     (let schoolsWithDistance = map (withDistance fp userLat userLon) schools
      in Array_sort byDistance schoolsWithDistance)"

datatype list_response =
    Listed real real nat "ranked list"
  | ListValidationFailed string
  | ListInternalError

definition listSchools :: "arith \<Rightarrow> jsval \<Rightarrow> jsval \<Rightarrow> store \<Rightarrow> list_response \<times> store" where
  "listSchools fp lat_query lon_query st =
     (case validateCoordinates lat_query lon_query of
        Invalid m \<Rightarrow> (ListValidationFailed m, st)
      | Valid userLat userLon \<Rightarrow>
          (case selectAll st of
             (None, st') \<Rightarrow> (ListInternalError, st')
           | (Some schools, st') \<Rightarrow>
               (let schoolsWithDistance = rankSchools fp userLat userLon schools
                in (Listed userLat userLon (length schoolsWithDistance) schoolsWithDistance, st'))))"

section \<open>Notions and inputs used in the statements\<close>

text \<open>
  A character that cannot continue a decimal literal: no digit, dot, exponent letter
  or sign.
\<close>

definition nonNumeric :: "16 word \<Rightarrow> bool" where
  "nonNumeric c =
     (\<not> isDigit c \<and> c \<noteq> 0x2E \<and> c \<noteq> 0x65 \<and> c \<noteq> 0x45 \<and> c \<noteq> 0x2B \<and> c \<noteq> 0x2D)"

text \<open>An empty table on a server that compares texts exactly and never fails.\<close>

definition empty_store :: store where
  "empty_store = \<lparr>rows = [], next_id = 1, faults = [], issued = [], collation = (=)\<rparr>"

text \<open>A submission whose name starts with a space.\<close>

definition oak_school :: school_data where
  "oak_school =
     \<lparr>name = Str (utf16 '' Oak School''), address = Str (utf16 ''1 Main St''),
      latitude = Num (Fin 1), longitude = Num (Fin 1)\<rparr>"

text \<open>The store after the submission has been sent once, and twice.\<close>

definition after_first_add :: store where
  "after_first_add = snd (addSchool Pool (Some oak_school) empty_store)"

definition after_second_add :: store where
  "after_second_add = snd (addSchool Pool (Some oak_school) after_first_add)"

text \<open>
  An arithmetic without rounding: on finite numbers every operation returns the exact
  real result, the square root of a negative number being NaN. It serves to evaluate the
  functions at concrete rows, where the engine's doubles differ from it by rounding only.
  An operation with an argument that is not finite gives NaN here; the evaluations below
  meet none.
\<close>

fun exact1 :: "(real \<Rightarrow> real) \<Rightarrow> jsnum \<Rightarrow> jsnum" where
  "exact1 f (Fin x) = Fin (f x)"
| "exact1 f v = NaN"

fun exact2 :: "(real \<Rightarrow> real \<Rightarrow> real) \<Rightarrow> jsnum \<Rightarrow> jsnum \<Rightarrow> jsnum" where
  "exact2 f (Fin x) (Fin y) = Fin (f x y)"
| "exact2 f v w = NaN"

fun exact_div :: "jsnum \<Rightarrow> jsnum \<Rightarrow> jsnum" where
  "exact_div (Fin x) (Fin y) =
     (if y \<noteq> 0 then Fin (x / y)
      else if 0 < x then PosInf else if x < 0 then NegInf else NaN)"
| "exact_div v w = NaN"

fun exact_sqrt :: "jsnum \<Rightarrow> jsnum" where
  "exact_sqrt (Fin x) = (if x < 0 then NaN else Fin (sqrt x))"
| "exact_sqrt v = NaN"

text \<open>The angle of the point \<open>(x, y)\<close>, in \<open>(-\<pi>, \<pi>]\<close>.\<close>

definition real_atan2 :: "real \<Rightarrow> real \<Rightarrow> real" where
  "real_atan2 y x =
     (if 0 < x then arctan (y / x)
      else if x < 0 then (if 0 \<le> y then arctan (y / x) + pi else arctan (y / x) - pi)
      else if 0 < y then pi / 2
      else if y < 0 then - (pi / 2)
      else 0)"

definition exact :: arith where
  "exact =
     \<lparr>fadd = exact2 (+), fsub = exact2 (-), fmul = exact2 (*), fdiv = exact_div,
      fsin = exact1 sin, fcos = exact1 cos, fsqrt = exact_sqrt,
      fatan2 = exact2 real_atan2, fpi = Fin pi\<rparr>"

text \<open>
  Four rows on the equator: at the origin, a hundred-thousandth of a degree east of it
  (about 1.1 metres), and two at 0.000085 degrees east (about 9.5 metres).
\<close>

definition near_school :: school where
  "near_school =
     \<lparr>row_id = 2, row_name = utf16 ''Near'', row_address = utf16 ''0 E'',
      row_latitude = 0, row_longitude = 0\<rparr>"

definition far_school :: school where
  "far_school =
     \<lparr>row_id = 1, row_name = utf16 ''Far'', row_address = utf16 ''1 E'',
      row_latitude = 0, row_longitude = 1 / 100000\<rparr>"

definition east_school :: school where
  "east_school =
     \<lparr>row_id = 3, row_name = utf16 ''East'', row_address = utf16 ''8 E'',
      row_latitude = 0, row_longitude = 17 / 200000\<rparr>"

definition east_twin :: school where
  "east_twin =
     \<lparr>row_id = 4, row_name = utf16 ''Twin'', row_address = utf16 ''8 E'',
      row_latitude = 0, row_longitude = 17 / 200000\<rparr>"

text \<open>A listed row that has only an id and a distance.\<close>

definition entry :: "nat \<Rightarrow> jsnum \<Rightarrow> ranked" where
  "entry i d =
     \<lparr>row_id = i, row_name = [], row_address = [], row_latitude = 0, row_longitude = 0,
      distance = d\<rparr>"

section \<open>Properties of the parser and of \<open>validateCoordinates\<close>\<close>

lemmas parse_defs = parseFloatString_def strDecimalLiteral_def strUnsignedDecimalLiteral_def
  decimalLiteral_def fractionPart_def
  exponentPart_def signPart_def trimStart_def trim_def isWhiteSpace_def isDigit_def
  digitValue_def digitsValue_def utf16_def Let_def

lemma parseFloatString_Nil: "parseFloatString [] = NaN"
  by (simp add: parse_defs)

lemma msg_latitude_not_required: "msg_latitude \<noteq> msg_required"
  by (simp add: msg_latitude_def msg_required_def)

lemma msg_longitude_not_required: "msg_longitude \<noteq> msg_required"
  by (simp add: msg_longitude_def msg_required_def)

subsection \<open>A literal followed by other characters\<close>

text \<open>
  Every reader returns the same value, and leaves the added characters in the rest, when
  a string is extended by characters of which the first is non-numeric.
\<close>

lemma takeDigits_tail:
  "t = [] \<or> nonNumeric (hd t) \<Longrightarrow> takeWhile isDigit (xs @ t) = takeWhile isDigit xs"
  by (induction xs) (auto simp: takeWhile_eq_Nil_iff neq_Nil_conv nonNumeric_def)

lemma dropDigits_tail:
  "t = [] \<or> nonNumeric (hd t) \<Longrightarrow> dropWhile isDigit (xs @ t) = dropWhile isDigit xs @ t"
  by (induction xs) (auto simp: dropWhile_eq_self_iff neq_Nil_conv nonNumeric_def)

lemma signPart_tail:
  "t = [] \<or> nonNumeric (hd t) \<Longrightarrow> signPart (r @ t) = (fst (signPart r), snd (signPart r) @ t)"
  by (cases r; cases t) (auto simp: signPart_def nonNumeric_def)

lemma exponentPart_tail:
  assumes "t = [] \<or> nonNumeric (hd t)"
  shows "exponentPart (r @ t) = (fst (exponentPart r), snd (exponentPart r) @ t)"
proof (cases r)
  case Nil
  then show ?thesis using assms by (cases t) (auto simp: exponentPart_def nonNumeric_def)
next
  case (Cons c r')
  show ?thesis
    by (simp add: Cons exponentPart_def signPart_tail[OF assms] takeDigits_tail[OF assms]
        dropDigits_tail[OF assms] Let_def split: prod.splits)
qed

lemma fractionPart_tail:
  assumes "t = [] \<or> nonNumeric (hd t)"
  shows "fractionPart b (r @ t) = (fst (fractionPart b r), snd (fractionPart b r) @ t)"
proof (cases r)
  case Nil
  then show ?thesis using assms by (cases t) (auto simp: fractionPart_def nonNumeric_def)
next
  case (Cons c r')
  show ?thesis
    by (auto simp: Cons fractionPart_def takeDigits_tail[OF assms] dropDigits_tail[OF assms])
qed

lemma decimalLiteral_tail:
  assumes t: "t = [] \<or> nonNumeric (hd t)"
    and p: "decimalLiteral p = Some (v, rest)"
  shows "decimalLiteral (p @ t) = Some (v, rest @ t)"
  using p
  by (simp add: decimalLiteral_def takeDigits_tail[OF t] dropDigits_tail[OF t]
      fractionPart_tail[OF t] exponentPart_tail[OF t] Let_def split_beta split: if_splits)

lemma decimalLiteral_head:
  "decimalLiteral p = Some r \<Longrightarrow> p \<noteq> [] \<and> (isDigit (hd p) \<or> hd p = 0x2E)"
  by (cases p) (auto simp: decimalLiteral_def fractionPart_def Let_def split_beta split: if_splits)

lemma infinity_head: "take 8 (p @ t) = utf16 ''Infinity'' \<Longrightarrow> p = [] \<or> hd p = 0x49"
  by (cases p) (auto simp: utf16_def)

lemma infinity_length: "take 8 p = utf16 ''Infinity'' \<Longrightarrow> 8 \<le> length p"
proof -
  assume "take 8 p = utf16 ''Infinity''"
  then have "length (take 8 p) = 8" by (simp add: utf16_def)
  then show ?thesis by simp
qed

lemma unsigned_tail:
  assumes t: "t = [] \<or> nonNumeric (hd t)"
    and p: "strUnsignedDecimalLiteral p = Some (v, rest)"
  shows "strUnsignedDecimalLiteral (p @ t) = Some (v, rest @ t)"
proof (cases "take 8 p = utf16 ''Infinity''")
  case True
  with infinity_length[OF True] p show ?thesis
    by (simp add: strUnsignedDecimalLiteral_def)
next
  case False
  then have d: "decimalLiteral p = Some (v, rest)"
    using p by (simp add: strUnsignedDecimalLiteral_def)
  have "take 8 (p @ t) \<noteq> utf16 ''Infinity''"
  proof
    assume a: "take 8 (p @ t) = utf16 ''Infinity''"
    from infinity_head[OF a] decimalLiteral_head[OF d] have "hd p = 0x49" "isDigit (hd p) \<or> hd p = 0x2E"
      by auto
    then show False by (auto simp: isDigit_def)
  qed
  then show ?thesis
    by (simp add: strUnsignedDecimalLiteral_def decimalLiteral_tail[OF t d])
qed

lemma strDecimalLiteral_tail:
  assumes t: "t = [] \<or> nonNumeric (hd t)"
    and p: "strDecimalLiteral p = Some (v, rest)"
  shows "strDecimalLiteral (p @ t) = Some (v, rest @ t)"
proof -
  obtain neg r where s: "signPart p = (neg, r)" by (cases "signPart p")
  with p obtain u where u: "strUnsignedDecimalLiteral r = Some (u, rest)"
    and v: "v = (if neg then negate u else u)"
    by (auto simp: strDecimalLiteral_def split: option.splits)
  show ?thesis
    by (simp add: strDecimalLiteral_def signPart_tail[OF t] s unsigned_tail[OF t u] v)
qed

lemma unsigned_head:
  assumes "strUnsignedDecimalLiteral p = Some r"
  shows "p \<noteq> [] \<and> (isDigit (hd p) \<or> hd p = 0x2E \<or> hd p = 0x49)"
proof (cases "take 8 p = utf16 ''Infinity''")
  case True
  from infinity_head[of p "[]"] True infinity_length[OF True] show ?thesis by auto
next
  case False
  with assms have "decimalLiteral p = Some r" by (simp add: strUnsignedDecimalLiteral_def)
  from decimalLiteral_head[OF this] show ?thesis by blast
qed

lemma whiteSpace_not_literal_head:
  "isWhiteSpace c \<Longrightarrow> \<not> isDigit c \<and> c \<noteq> 0x2E \<and> c \<noteq> 0x49 \<and> c \<noteq> 0x2B \<and> c \<noteq> 0x2D"
  unfolding isWhiteSpace_def isDigit_def word_le_nat_alt by auto

lemma strDecimalLiteral_head:
  assumes "strDecimalLiteral p = Some r"
  shows "p \<noteq> [] \<and> \<not> isWhiteSpace (hd p)"
proof -
  obtain neg q where s: "signPart p = (neg, q)" by (cases "signPart p")
  with assms obtain u where u: "strUnsignedDecimalLiteral q = Some u"
    by (auto simp: strDecimalLiteral_def split: option.splits)
  note h = unsigned_head[OF u]
  from s h have "p \<noteq> []" by (auto simp: signPart_def)
  moreover from s h have "hd p = 0x2D \<or> hd p = 0x2B \<or> isDigit (hd p) \<or> hd p = 0x2E \<or> hd p = 0x49"
    by (cases p) (auto simp: signPart_def split: if_splits)
  ultimately show ?thesis using whiteSpace_not_literal_head[of "hd p"] by blast
qed

lemma parseFloatString_prefix:
  assumes "strDecimalLiteral p = Some (v, [])" "t = [] \<or> nonNumeric (hd t)"
  shows "parseFloatString (p @ t) = v"
proof -
  from strDecimalLiteral_head[OF assms(1)] have "dropWhile isWhiteSpace (p @ t) = p @ t"
    by (cases p) auto
  then show ?thesis
    using strDecimalLiteral_tail[OF assms(2) assms(1)] by (simp add: parseFloatString_def trimStart_def)
qed



subsection \<open>Missing coordinates\<close>

text \<open>
  C4, counterexample. The string of one space is empty after trimming, yet
  \<open>validateCoordinates\<close> does not report it as missing: the presence check compares
  with the empty string before any trimming, and the string then fails the latitude
  check.
\<close>

theorem C4_counterexample:
  "trim (utf16 '' '') = [] \<and>
   validateCoordinates (Str (utf16 '' '')) (Num (Fin 0)) = Invalid msg_latitude \<and>
   msg_latitude \<noteq> msg_required"
  by (simp add: validateCoordinates_def notProvided_def parse_defs msg_latitude_not_required)

text \<open>
  C4, amended. A pair in which either value is \<open>undefined\<close>, \<open>null\<close> or exactly the
  empty string fails with the message of a missing field. A string that is not empty
  but is empty after trimming is not taken as missing: it fails the number check of
  its own coordinate.
\<close>

theorem C4_missing_field:
  "((lat_raw = Undefined \<or> lat_raw = Null \<or> lat_raw = Str [] \<or>
     lon_raw = Undefined \<or> lon_raw = Null \<or> lon_raw = Str []) \<longrightarrow>
      validateCoordinates lat_raw lon_raw = Invalid msg_required) \<and>
   (s \<noteq> [] \<and> trim s = [] \<and> lon_raw \<noteq> Undefined \<and> lon_raw \<noteq> Null \<and> lon_raw \<noteq> Str [] \<longrightarrow>
      validateCoordinates (Str s) lon_raw = Invalid msg_latitude) \<and>
   (s \<noteq> [] \<and> trim s = [] \<and> - 90 \<le> x \<and> x \<le> 90 \<longrightarrow>
      validateCoordinates (Num (Fin x)) (Str s) = Invalid msg_longitude)"
  by (auto simp: validateCoordinates_def notProvided_def parseFloatString_Nil)

text \<open>C4, witness: the amended statement at four concrete pairs.\<close>

theorem C4_missing_field_witness:
  "validateCoordinates Undefined (Str (utf16 ''10'')) = Invalid msg_required \<and>
   validateCoordinates (Num (Fin 5)) (Str []) = Invalid msg_required \<and>
   validateCoordinates (Str (utf16 '' '')) (Num (Fin 0)) = Invalid msg_latitude \<and>
   validateCoordinates (Num (Fin 5)) (Str (utf16 '' '')) = Invalid msg_longitude"
proof -
  have t: "utf16 '' '' \<noteq> [] \<and> trim (utf16 '' '') = []" by (simp add: parse_defs)
  show ?thesis
    using C4_missing_field[of Undefined "Str (utf16 ''10'')" "utf16 '' ''" 5]
      C4_missing_field[of "Num (Fin 5)" "Str []" "utf16 '' ''" 5]
      C4_missing_field[of Undefined "Num (Fin 0)" "utf16 '' ''" 5] t
    by simp
qed


subsection \<open>Failure kinds of the number checks\<close>

text \<open>
  C3, counterexample. \<open>"abc"\<close> parses to NaN and 91 is a number out of range, and
  \<open>validateCoordinates\<close> returns the very same result for both: the two failures are
  not distinct.
\<close>

theorem C3_counterexample:
  "parseIfString (Str (utf16 ''abc'')) = Num NaN \<and>
   parseIfString (Num (Fin 91)) = Num (Fin 91) \<and>
   validateCoordinates (Str (utf16 ''abc'')) (Num (Fin 0)) =
   validateCoordinates (Num (Fin 91)) (Num (Fin 0))"
  by (simp add: validateCoordinates_def notProvided_def parse_defs)

text \<open>
  C3, amended. When both values are provided, a latitude that parses to NaN, to an
  infinity or to a number outside \<open>[-90, 90]\<close> fails with one and the same latitude
  message, and with a valid latitude a longitude that parses to NaN, to an infinity or to
  a number outside \<open>[-180, 180]\<close> fails with one and the same longitude message.
\<close>

theorem C3_one_failure_per_coordinate:
  "(\<not> notProvided lat_raw lon_raw \<and>
    (parseIfString lat_raw = Num NaN \<or> parseIfString lat_raw = Num PosInf \<or>
     parseIfString lat_raw = Num NegInf \<or>
     (\<exists>v. parseIfString lat_raw = Num (Fin v) \<and> (v < - 90 \<or> 90 < v))) \<longrightarrow>
      validateCoordinates lat_raw lon_raw = Invalid msg_latitude) \<and>
   (\<not> notProvided lat_raw lon_raw \<and> numberWithin (parseIfString lat_raw) (- 90) 90 = Some x \<and>
    (parseIfString lon_raw = Num NaN \<or> parseIfString lon_raw = Num PosInf \<or>
     parseIfString lon_raw = Num NegInf \<or>
     (\<exists>v. parseIfString lon_raw = Num (Fin v) \<and> (v < - 180 \<or> 180 < v))) \<longrightarrow>
      validateCoordinates lat_raw lon_raw = Invalid msg_longitude)"
  by (auto simp: validateCoordinates_def)

text \<open>C3, witness: a NaN, an out-of-range number and an infinity.\<close>

theorem C3_one_failure_per_coordinate_witness:
  "validateCoordinates (Str (utf16 ''abc'')) (Num (Fin 0)) = Invalid msg_latitude \<and>
   validateCoordinates (Num (Fin 91)) (Num (Fin 0)) = Invalid msg_latitude \<and>
   validateCoordinates (Num (Fin 10)) (Str (utf16 ''Infinity'')) = Invalid msg_longitude"
proof -
  have a: "\<not> notProvided (Str (utf16 ''abc'')) (Num (Fin 0)) \<and>
           parseIfString (Str (utf16 ''abc'')) = Num NaN"
    by (simp add: notProvided_def parse_defs)
  have b: "\<not> notProvided (Num (Fin 91)) (Num (Fin 0)) \<and>
           parseIfString (Num (Fin 91)) = Num (Fin 91) \<and> (90::real) < 91"
    by (simp add: notProvided_def)
  have c: "\<not> notProvided (Num (Fin 10)) (Str (utf16 ''Infinity'')) \<and>
           numberWithin (parseIfString (Num (Fin 10))) (- 90) 90 = Some 10 \<and>
           parseIfString (Str (utf16 ''Infinity'')) = Num PosInf"
    by (simp add: notProvided_def parse_defs)
  from a have "validateCoordinates (Str (utf16 ''abc'')) (Num (Fin 0)) = Invalid msg_latitude"
    using C3_one_failure_per_coordinate[of "Str (utf16 ''abc'')" "Num (Fin 0)" 0] by blast
  moreover from b have "validateCoordinates (Num (Fin 91)) (Num (Fin 0)) = Invalid msg_latitude"
    using C3_one_failure_per_coordinate[of "Num (Fin 91)" "Num (Fin 0)" 0] by blast
  moreover from c
  have "validateCoordinates (Num (Fin 10)) (Str (utf16 ''Infinity'')) = Invalid msg_longitude"
    using C3_one_failure_per_coordinate[of "Num (Fin 10)" "Str (utf16 ''Infinity'')" 10] by blast
  ultimately show ?thesis by simp
qed

subsection \<open>Valid coordinates\<close>

text \<open>
  C8. A latitude in \<open>[-90, 90]\<close> and a longitude in \<open>[-180, 180]\<close>, each given as a
  number or as a non-empty string that parses to that number after trimming, are accepted,
  and the values returned are the parsed ones. The validator is a function of its two
  arguments alone.
\<close>

theorem C8_valid_coordinates:
  assumes "- 90 \<le> x" "x \<le> 90" "- 180 \<le> y" "y \<le> 180"
    and "lat_raw = Num (Fin x) \<or>
         (\<exists>s. lat_raw = Str s \<and> s \<noteq> [] \<and> parseFloatString (trim s) = Fin x)"
    and "lon_raw = Num (Fin y) \<or>
         (\<exists>s. lon_raw = Str s \<and> s \<noteq> [] \<and> parseFloatString (trim s) = Fin y)"
  shows "validateCoordinates lat_raw lon_raw = Valid x y"
  using assms by (auto simp: validateCoordinates_def notProvided_def)

text \<open>C8, witness: the same pair, once with the latitude as text and once with the longitude.\<close>

theorem C8_valid_coordinates_witness:
  "validateCoordinates (Str (utf16 '' 45.5 '')) (Num (Fin (- 120))) = Valid (91 / 2) (- 120) \<and>
   validateCoordinates (Num (Fin (91 / 2))) (Str (utf16 ''-120'')) = Valid (91 / 2) (- 120)"
proof -
  have a: "utf16 '' 45.5 '' \<noteq> [] \<and> parseFloatString (trim (utf16 '' 45.5 '')) = Fin (91 / 2)"
    by (simp add: parse_defs)
  have b: "utf16 ''-120'' \<noteq> [] \<and> parseFloatString (trim (utf16 ''-120'')) = Fin (- 120)"
    by (simp add: parse_defs)
  have r: "(- 90::real) \<le> 91 / 2" "(91 / 2::real) \<le> 90" "(- 180::real) \<le> - 120" "(- 120::real) \<le> 180"
    by simp_all
  show ?thesis
    using C8_valid_coordinates[OF r, of "Str (utf16 '' 45.5 '')" "Num (Fin (- 120))"]
      C8_valid_coordinates[OF r, of "Num (Fin (91 / 2))" "Str (utf16 ''-120'')"] a b
    by simp
qed

subsection \<open>Text after the number\<close>

text \<open>
  C10. When the trimmed text of a coordinate is a complete decimal literal followed by
  nothing or by characters of which the first is non-numeric, the coordinate parses to the
  value of the literal, whatever follows. With the other coordinate valid, the pair is
  accepted as soon as that value is in range, as a latitude and as a longitude alike.
\<close>

theorem C10_numeric_prefix_accepted:
  assumes "trim s = p @ t" "strDecimalLiteral p = Some (Fin v, [])" "t = [] \<or> nonNumeric (hd t)"
  shows "parseIfString (Str s) = Num (Fin v) \<and>
         (- 90 \<le> v \<and> v \<le> 90 \<and> \<not> notProvided (Str s) other \<and>
          numberWithin (parseIfString other) (- 180) 180 = Some y \<longrightarrow>
            validateCoordinates (Str s) other = Valid v y) \<and>
         (- 180 \<le> v \<and> v \<le> 180 \<and> \<not> notProvided other (Str s) \<and>
          numberWithin (parseIfString other) (- 90) 90 = Some x \<longrightarrow>
            validateCoordinates other (Str s) = Valid x v)"
proof -
  have "parseFloatString (trim s) = Fin v"
    using assms by (simp add: parseFloatString_prefix)
  then have "parseIfString (Str s) = Num (Fin v)" by simp
  then show ?thesis by (simp add: validateCoordinates_def)
qed

text \<open>
  C10, witness: \<open>"45abc"\<close> as a latitude beside the longitude \<open>" -120.5 deg"\<close>, and
  as a longitude beside the latitude 10.
\<close>

theorem C10_numeric_prefix_accepted_witness:
  "parseIfString (Str (utf16 ''45abc'')) = Num (Fin 45) \<and>
   validateCoordinates (Str (utf16 ''45abc'')) (Str (utf16 '' -120.5 deg'')) = Valid 45 (- (241 / 2)) \<and>
   validateCoordinates (Num (Fin 10)) (Str (utf16 ''45abc'')) = Valid 10 45"
proof -
  have a: "trim (utf16 ''45abc'') = utf16 ''45'' @ utf16 ''abc''"
    and b: "strDecimalLiteral (utf16 ''45'') = Some (Fin 45, [])"
    and c: "utf16 ''abc'' = [] \<or> nonNumeric (hd (utf16 ''abc''))"
    by (simp_all add: parse_defs nonNumeric_def)
  have d: "(- 90::real) \<le> 45 \<and> (45::real) \<le> 90 \<and>
           \<not> notProvided (Str (utf16 ''45abc'')) (Str (utf16 '' -120.5 deg'')) \<and>
           numberWithin (parseIfString (Str (utf16 '' -120.5 deg''))) (- 180) 180 = Some (- (241 / 2))"
    by (simp add: notProvided_def parse_defs)
  have e: "(- 180::real) \<le> 45 \<and> (45::real) \<le> 180 \<and>
           \<not> notProvided (Num (Fin 10)) (Str (utf16 ''45abc'')) \<and>
           numberWithin (parseIfString (Num (Fin 10))) (- 90) 90 = Some 10"
    by (simp add: notProvided_def utf16_def)
  have "parseIfString (Str (utf16 ''45abc'')) = Num (Fin 45)"
    using C10_numeric_prefix_accepted[OF a b c] by blast
  moreover from d
  have "validateCoordinates (Str (utf16 ''45abc'')) (Str (utf16 '' -120.5 deg'')) =
          Valid 45 (- (241 / 2))"
    using C10_numeric_prefix_accepted[OF a b c, of "Str (utf16 '' -120.5 deg'')" "- (241 / 2)" 0]
    by blast
  moreover from e have "validateCoordinates (Num (Fin 10)) (Str (utf16 ''45abc'')) = Valid 10 45"
    using C10_numeric_prefix_accepted[OF a b c, of "Num (Fin 10)" 0 10] by blast
  ultimately show ?thesis by simp
qed

section \<open>Properties of \<open>validateSchoolData\<close> and \<open>addSchool\<close>\<close>

lemma parseIfString_case:
  "(case v of Str s \<Rightarrow> Num (parseFloat (Str (trim s))) | w \<Rightarrow> w) = parseIfString v"
  by (cases v) simp_all

lemma issue_rows: "rows (snd (issue q s)) = rows s \<and> next_id (snd (issue q s)) = next_id s"
  by (simp add: issue_def split: list.splits)

lemma issue_issued: "issued (snd (issue q s)) = issued s @ [q]"
  by (simp add: issue_def split: list.splits)

lemma checkDuplicate_rows:
  "rows (snd (checkDuplicate nm ad x y db s)) = rows s \<and>
   next_id (snd (checkDuplicate nm ad x y db s)) = next_id s"
  using issue_rows[of "SelectIdByNameAddress (trim nm) (trim ad)" s]
  by (auto simp: checkDuplicate_def selectByNameAddress_def split_beta split: prod.splits option.splits if_splits)

lemma checkDuplicate_issued:
  "issued (snd (checkDuplicate nm ad x y db s)) =
     (if db = NoExecute then issued s else issued s @ [SelectIdByNameAddress (trim nm) (trim ad)])"
  using issue_issued[of "SelectIdByNameAddress (trim nm) (trim ad)" s]
  by (auto simp: checkDuplicate_def selectByNameAddress_def split_beta split: prod.splits option.splits if_splits)

lemma checkDuplicate_Valid:
  "checkDuplicate nm ad x y db s = (Valid x' y', s') \<Longrightarrow> x' = x \<and> y' = y"
  by (auto simp: checkDuplicate_def split: prod.splits option.splits if_splits)

lemma validateSchoolData_stages:
  "validateSchoolData d db st =
     (case textOfLength (name d) 3 of
        None \<Rightarrow> (Invalid msg_name, st)
      | Some nm \<Rightarrow>
          (case textOfLength (address d) 5 of
             None \<Rightarrow> (Invalid msg_address, st)
           | Some ad \<Rightarrow>
               (case validateCoordinates (latitude d) (longitude d) of
                  Invalid m \<Rightarrow> (Invalid m, st)
                | Valid x y \<Rightarrow> checkDuplicate nm ad x y db st)))"
  by (simp add: validateSchoolData_def validateCoordinates_def notProvided_def parseIfString_case
      split: option.splits)

lemma validateSchoolData_issued:
  "issued (snd (validateSchoolData d db st)) = issued st \<or>
   (\<exists>n a. issued (snd (validateSchoolData d db st)) = issued st @ [SelectIdByNameAddress n a])"
  by (simp add: validateSchoolData_stages checkDuplicate_issued
      split: option.splits validation.splits)

lemma validateSchoolData_rows:
  "rows (snd (validateSchoolData d db st)) = rows st \<and>
   next_id (snd (validateSchoolData d db st)) = next_id st"
  by (simp add: validateSchoolData_stages checkDuplicate_rows split: option.splits validation.splits)

subsection \<open>The coordinate checks of the two validators\<close>

text \<open>
  C5. Once the name and the address have passed, \<open>validateSchoolData\<close> does with the
  latitude and longitude exactly what \<open>validateCoordinates\<close> does with them: where the
  coordinate validator fails the school validator fails with the same message and leaves
  the store alone, and where it succeeds the school validator goes on to the duplicate
  check with the same two parsed values, which are also the ones it returns in the end.
\<close>

theorem C5_coordinate_checks_agree:
  assumes "textOfLength (name d) 3 = Some nm" "textOfLength (address d) 5 = Some ad"
  shows "validateSchoolData d db st =
           (case validateCoordinates (latitude d) (longitude d) of
              Invalid m \<Rightarrow> (Invalid m, st)
            | Valid x y \<Rightarrow> checkDuplicate nm ad x y db st) \<and>
         (\<forall>x y st'. validateSchoolData d db st = (Valid x y, st') \<longrightarrow>
            validateCoordinates (latitude d) (longitude d) = Valid x y)"
  using assms
  by (auto simp: validateSchoolData_stages split: validation.splits dest: checkDuplicate_Valid)

lemma oak_school_texts:
  "textOfLength (name oak_school) 3 = Some (utf16 '' Oak School'')"
  "textOfLength (address oak_school) 5 = Some (utf16 ''1 Main St'')"
  by (simp_all add: oak_school_def parse_defs)

text \<open>C5, witness: the latitude \<open>"abc"\<close> is rejected alike by both validators.\<close>

theorem C5_coordinate_checks_agree_witness:
  "validateSchoolData (oak_school\<lparr>latitude := Str (utf16 ''abc'')\<rparr>) Pool empty_store =
     (Invalid msg_latitude, empty_store) \<and>
   validateCoordinates (Str (utf16 ''abc'')) (Num (Fin 1)) = Invalid msg_latitude"
proof -
  have n: "textOfLength (name (oak_school\<lparr>latitude := Str (utf16 ''abc'')\<rparr>)) 3 =
             Some (utf16 '' Oak School'')"
    and a: "textOfLength (address (oak_school\<lparr>latitude := Str (utf16 ''abc'')\<rparr>)) 5 =
             Some (utf16 ''1 Main St'')"
    using oak_school_texts by simp_all
  have v: "validateCoordinates (Str (utf16 ''abc'')) (Num (Fin 1)) = Invalid msg_latitude"
    by (simp add: validateCoordinates_def notProvided_def parse_defs)
  have l: "latitude (oak_school\<lparr>latitude := Str (utf16 ''abc'')\<rparr>) = Str (utf16 ''abc'')"
    "longitude (oak_school\<lparr>latitude := Str (utf16 ''abc'')\<rparr>) = Num (Fin 1)"
    by (simp_all add: oak_school_def)
  show ?thesis
    using C5_coordinate_checks_agree[OF n a, of Pool empty_store] v by (simp add: l)
qed

subsection \<open>Order of the checks\<close>

text \<open>
  C6. The checks run in the order name, address, coordinates present, latitude,
  longitude, duplicate. The first check that fails decides the result, whatever the later
  fields hold, and the store is returned as it was given, so no statement has been sent;
  only when all five checks pass is the store asked, with one statement.
\<close>

theorem C6_first_failure_only:
  "(textOfLength (name d) 3 = None \<longrightarrow> validateSchoolData d db st = (Invalid msg_name, st)) \<and>
   (textOfLength (name d) 3 = Some nm \<and> textOfLength (address d) 5 = None \<longrightarrow>
      validateSchoolData d db st = (Invalid msg_address, st)) \<and>
   (textOfLength (name d) 3 = Some nm \<and> textOfLength (address d) 5 = Some ad \<and>
    notProvided (latitude d) (longitude d) \<longrightarrow>
      validateSchoolData d db st = (Invalid msg_required, st)) \<and>
   (textOfLength (name d) 3 = Some nm \<and> textOfLength (address d) 5 = Some ad \<and>
    \<not> notProvided (latitude d) (longitude d) \<and>
    numberWithin (parseIfString (latitude d)) (- 90) 90 = None \<longrightarrow>
      validateSchoolData d db st = (Invalid msg_latitude, st)) \<and>
   (textOfLength (name d) 3 = Some nm \<and> textOfLength (address d) 5 = Some ad \<and>
    \<not> notProvided (latitude d) (longitude d) \<and>
    numberWithin (parseIfString (latitude d)) (- 90) 90 = Some x \<and>
    numberWithin (parseIfString (longitude d)) (- 180) 180 = None \<longrightarrow>
      validateSchoolData d db st = (Invalid msg_longitude, st)) \<and>
   (textOfLength (name d) 3 = Some nm \<and> textOfLength (address d) 5 = Some ad \<and>
    \<not> notProvided (latitude d) (longitude d) \<and>
    numberWithin (parseIfString (latitude d)) (- 90) 90 = Some x \<and>
    numberWithin (parseIfString (longitude d)) (- 180) 180 = Some y \<longrightarrow>
      validateSchoolData d db st = checkDuplicate nm ad x y db st \<and>
      issued (snd (validateSchoolData d Pool st)) =
        issued st @ [SelectIdByNameAddress (trim nm) (trim ad)])"
  by (simp add: validateSchoolData_def notProvided_def parseIfString_case checkDuplicate_issued)


text \<open>
  C6, witness: five submissions that each fail at one check although a later field is
  bad as well, and one that reaches the store.
\<close>

theorem C6_first_failure_only_witness:
  "validateSchoolData (oak_school\<lparr>name := Str (utf16 ''Oa''), address := Null, latitude := Undefined\<rparr>)
     Pool empty_store = (Invalid msg_name, empty_store) \<and>
   validateSchoolData (oak_school\<lparr>address := Str (utf16 ''1 Ma''), latitude := Undefined\<rparr>)
     Pool empty_store = (Invalid msg_address, empty_store) \<and>
   validateSchoolData (oak_school\<lparr>latitude := Str (utf16 ''95''), longitude := Null\<rparr>)
     Pool empty_store = (Invalid msg_required, empty_store) \<and>
   validateSchoolData (oak_school\<lparr>latitude := Str (utf16 ''95''), longitude := Num (Fin 200)\<rparr>)
     Pool empty_store = (Invalid msg_latitude, empty_store) \<and>
   validateSchoolData (oak_school\<lparr>longitude := Num (Fin 200)\<rparr>)
     Pool empty_store = (Invalid msg_longitude, empty_store) \<and>
   issued (snd (validateSchoolData oak_school Pool empty_store)) =
     [SelectIdByNameAddress (utf16 ''Oak School'') (utf16 ''1 Main St'')]"
proof -
  let ?n = "utf16 '' Oak School''" and ?a = "utf16 ''1 Main St''"
  have 1: "textOfLength (name (oak_school\<lparr>name := Str (utf16 ''Oa''), address := Null,
              latitude := Undefined\<rparr>)) 3 = None"
    by (simp add: parse_defs)
  have 2: "textOfLength (name (oak_school\<lparr>address := Str (utf16 ''1 Ma''), latitude := Undefined\<rparr>)) 3
             = Some ?n \<and>
           textOfLength (address (oak_school\<lparr>address := Str (utf16 ''1 Ma''),
              latitude := Undefined\<rparr>)) 5 = None"
    by (simp add: oak_school_def parse_defs)
  have 3: "textOfLength (name (oak_school\<lparr>latitude := Str (utf16 ''95''), longitude := Null\<rparr>)) 3
             = Some ?n \<and>
           textOfLength (address (oak_school\<lparr>latitude := Str (utf16 ''95''), longitude := Null\<rparr>)) 5
             = Some ?a \<and>
           notProvided (latitude (oak_school\<lparr>latitude := Str (utf16 ''95''), longitude := Null\<rparr>))
             (longitude (oak_school\<lparr>latitude := Str (utf16 ''95''), longitude := Null\<rparr>))"
    by (simp add: oak_school_def notProvided_def parse_defs)
  have 4: "textOfLength (name (oak_school\<lparr>latitude := Str (utf16 ''95''),
              longitude := Num (Fin 200)\<rparr>)) 3 = Some ?n \<and>
           textOfLength (address (oak_school\<lparr>latitude := Str (utf16 ''95''),
              longitude := Num (Fin 200)\<rparr>)) 5 = Some ?a \<and>
           \<not> notProvided (latitude (oak_school\<lparr>latitude := Str (utf16 ''95''),
              longitude := Num (Fin 200)\<rparr>))
             (longitude (oak_school\<lparr>latitude := Str (utf16 ''95''), longitude := Num (Fin 200)\<rparr>)) \<and>
           numberWithin (parseIfString (latitude (oak_school\<lparr>latitude := Str (utf16 ''95''),
              longitude := Num (Fin 200)\<rparr>))) (- 90) 90 = None"
    by (simp add: oak_school_def notProvided_def parse_defs)
  have 5: "textOfLength (name (oak_school\<lparr>longitude := Num (Fin 200)\<rparr>)) 3 = Some ?n \<and>
           textOfLength (address (oak_school\<lparr>longitude := Num (Fin 200)\<rparr>)) 5 = Some ?a \<and>
           \<not> notProvided (latitude (oak_school\<lparr>longitude := Num (Fin 200)\<rparr>))
             (longitude (oak_school\<lparr>longitude := Num (Fin 200)\<rparr>)) \<and>
           numberWithin (parseIfString (latitude (oak_school\<lparr>longitude := Num (Fin 200)\<rparr>)))
             (- 90) 90 = Some 1 \<and>
           numberWithin (parseIfString (longitude (oak_school\<lparr>longitude := Num (Fin 200)\<rparr>)))
             (- 180) 180 = None"
    by (simp add: oak_school_def notProvided_def parse_defs)
  have 6: "textOfLength (name oak_school) 3 = Some ?n \<and>
           textOfLength (address oak_school) 5 = Some ?a \<and>
           \<not> notProvided (latitude oak_school) (longitude oak_school) \<and>
           numberWithin (parseIfString (latitude oak_school)) (- 90) 90 = Some 1 \<and>
           numberWithin (parseIfString (longitude oak_school)) (- 180) 180 = Some 1"
    by (simp add: oak_school_def notProvided_def parse_defs)
  have t: "trim ?n = utf16 ''Oak School''" "trim ?a = utf16 ''1 Main St''"
    by (simp_all add: parse_defs)
  from 1 have "validateSchoolData (oak_school\<lparr>name := Str (utf16 ''Oa''), address := Null,
      latitude := Undefined\<rparr>) Pool empty_store = (Invalid msg_name, empty_store)"
    using C6_first_failure_only[of "oak_school\<lparr>name := Str (utf16 ''Oa''), address := Null,
      latitude := Undefined\<rparr>" Pool empty_store ?n ?a 1 1] by blast
  moreover from 2 have "validateSchoolData (oak_school\<lparr>address := Str (utf16 ''1 Ma''),
      latitude := Undefined\<rparr>) Pool empty_store = (Invalid msg_address, empty_store)"
    using C6_first_failure_only[of "oak_school\<lparr>address := Str (utf16 ''1 Ma''),
      latitude := Undefined\<rparr>" Pool empty_store ?n ?a 1 1] by blast
  moreover from 3 have "validateSchoolData (oak_school\<lparr>latitude := Str (utf16 ''95''),
      longitude := Null\<rparr>) Pool empty_store = (Invalid msg_required, empty_store)"
    using C6_first_failure_only[of "oak_school\<lparr>latitude := Str (utf16 ''95''),
      longitude := Null\<rparr>" Pool empty_store ?n ?a 1 1] by blast
  moreover from 4 have "validateSchoolData (oak_school\<lparr>latitude := Str (utf16 ''95''),
      longitude := Num (Fin 200)\<rparr>) Pool empty_store = (Invalid msg_latitude, empty_store)"
    using C6_first_failure_only[of "oak_school\<lparr>latitude := Str (utf16 ''95''),
      longitude := Num (Fin 200)\<rparr>" Pool empty_store ?n ?a 1 1] by blast
  moreover from 5 have "validateSchoolData (oak_school\<lparr>longitude := Num (Fin 200)\<rparr>)
      Pool empty_store = (Invalid msg_longitude, empty_store)"
    using C6_first_failure_only[of "oak_school\<lparr>longitude := Num (Fin 200)\<rparr>"
      Pool empty_store ?n ?a 1 1] by blast
  moreover from 6 have "issued (snd (validateSchoolData oak_school Pool empty_store)) =
      issued empty_store @ [SelectIdByNameAddress (trim ?n) (trim ?a)]"
    using C6_first_failure_only[of oak_school Pool empty_store ?n ?a 1 1] by blast
  ultimately show ?thesis by (simp add: t empty_store_def)
qed

subsection \<open>No insert without a successful validation\<close>

text \<open>
  C9. When validation fails, \<open>addSchool\<close> answers with the validation failure and the
  store is the one the validator left: the table and the next id are unchanged, and at
  most one statement has been sent, the select of the duplicate check. And the table
  changes only when the body has passed validation.
\<close>

theorem C9_failed_validation_inserts_nothing:
  "(fst (validateSchoolData d pool st) = Invalid m \<longrightarrow>
      addSchool pool (Some d) st = (ValidationFailed m, snd (validateSchoolData d pool st)) \<and>
      rows (snd (addSchool pool (Some d) st)) = rows st \<and>
      next_id (snd (addSchool pool (Some d) st)) = next_id st \<and>
      (issued (snd (addSchool pool (Some d) st)) = issued st \<or>
       (\<exists>n a. issued (snd (addSchool pool (Some d) st)) =
                issued st @ [SelectIdByNameAddress n a]))) \<and>
   (rows (snd (addSchool pool body st)) \<noteq> rows st \<longrightarrow>
      (\<exists>d' x y. body = Some d' \<and> fst (validateSchoolData d' pool st) = Valid x y))"
proof (intro conjI impI)
  assume a: "fst (validateSchoolData d pool st) = Invalid m"
  then show r: "addSchool pool (Some d) st = (ValidationFailed m, snd (validateSchoolData d pool st))"
    by (cases "validateSchoolData d pool st") (simp add: addSchool_def)
  show "rows (snd (addSchool pool (Some d) st)) = rows st"
    by (simp add: r validateSchoolData_rows)
  show "next_id (snd (addSchool pool (Some d) st)) = next_id st"
    by (simp add: r validateSchoolData_rows)
  show "issued (snd (addSchool pool (Some d) st)) = issued st \<or>
        (\<exists>n a. issued (snd (addSchool pool (Some d) st)) = issued st @ [SelectIdByNameAddress n a])"
    using validateSchoolData_issued[of d pool st] by (simp add: r)
next
  assume c: "rows (snd (addSchool pool body st)) \<noteq> rows st"
  then obtain d' where b: "body = Some d'"
    by (cases body) (auto simp: addSchool_def)
  obtain v st' where v: "validateSchoolData d' pool st = (v, st')"
    by (cases "validateSchoolData d' pool st")
  have "rows st' = rows st" using validateSchoolData_rows[of d' pool st] v by simp
  with c b v obtain x y where "v = Valid x y"
    by (cases v) (auto simp: addSchool_def)
  with b v show "\<exists>d' x y. body = Some d' \<and> fst (validateSchoolData d' pool st) = Valid x y"
    by simp
qed


lemmas store_defs = addSchool_def validateSchoolData_def checkDuplicate_def
  selectByNameAddress_def insertSchool_def issue_def empty_store_def oak_school_def

text \<open>C9, witness: a name that is too short, and a submission that is stored.\<close>

theorem C9_failed_validation_inserts_nothing_witness:
  "addSchool Pool (Some (oak_school\<lparr>name := Str (utf16 ''Oa'')\<rparr>)) empty_store =
     (ValidationFailed msg_name, empty_store) \<and>
   rows (snd (addSchool Pool (Some oak_school) empty_store)) \<noteq> rows empty_store \<and>
   (\<exists>d' x y. Some oak_school = Some d' \<and> fst (validateSchoolData d' Pool empty_store) = Valid x y)"
proof -
  have v: "validateSchoolData (oak_school\<lparr>name := Str (utf16 ''Oa'')\<rparr>) Pool empty_store =
             (Invalid msg_name, empty_store)"
    by (simp add: validateSchoolData_def parse_defs)
  have r: "rows (snd (addSchool Pool (Some oak_school) empty_store)) \<noteq> rows empty_store"
    by (simp add: store_defs parse_defs)
  from v have "addSchool Pool (Some (oak_school\<lparr>name := Str (utf16 ''Oa'')\<rparr>)) empty_store =
     (ValidationFailed msg_name, empty_store)"
    using C9_failed_validation_inserts_nothing[of "oak_school\<lparr>name := Str (utf16 ''Oa'')\<rparr>"
        Pool empty_store msg_name "Some oak_school"] by simp
  moreover from r
  have "\<exists>d' x y. Some oak_school = Some d' \<and> fst (validateSchoolData d' Pool empty_store) = Valid x y"
    using C9_failed_validation_inserts_nothing[of "oak_school\<lparr>name := Str (utf16 ''Oa'')\<rparr>"
        Pool empty_store msg_name "Some oak_school"] by blast
  ultimately show ?thesis using r by simp
qed

subsection \<open>Uniqueness of name and address\<close>

lemma first_add:
  "addSchool Pool (Some oak_school) empty_store =
     (Created 1 (Str (utf16 '' Oak School'')) (Str (utf16 ''1 Main St'')) (Fin 1) (Fin 1),
      \<lparr>rows = [\<lparr>row_id = 1, row_name = utf16 '' Oak School'', row_address = utf16 ''1 Main St'',
                row_latitude = 1, row_longitude = 1\<rparr>],
       next_id = 2, faults = [],
       issued = [SelectIdByNameAddress (utf16 ''Oak School'') (utf16 ''1 Main St''),
                 InsertSchool (Str (utf16 '' Oak School'')) (Str (utf16 ''1 Main St'')) (Fin 1) (Fin 1)],
       collation = (=)\<rparr>)"
  by (simp add: store_defs parse_defs)

text \<open>
  C1, the code at the failing input. Starting from the empty table, the same submission,
  whose name starts with a space, is accepted twice: the duplicate check asks the store
  for the trimmed name while the insert has stored the name as submitted. The table then
  holds two rows with the same name and the same address.
\<close>

theorem C1_same_school_stored_twice:
  "status (fst (addSchool Pool (Some oak_school) empty_store)) = 201 \<and>
   status (fst (addSchool Pool (Some oak_school) after_first_add)) = 201 \<and>
   map row_name (rows after_second_add) = [utf16 '' Oak School'', utf16 '' Oak School''] \<and>
   map row_address (rows after_second_add) = [utf16 ''1 Main St'', utf16 ''1 Main St'']"
  by (simp add: after_second_add_def after_first_add_def first_add)
    (simp add: addSchool_def validateSchoolData_def checkDuplicate_def
      selectByNameAddress_def insertSchool_def issue_def oak_school_def parse_defs)

section \<open>Properties of the ranking\<close>

subsection \<open>The sort\<close>

text \<open>
  The sort keeps the rows, never moves a row past one with the same distance, and, when
  no distance is NaN, leaves the list ascending.
\<close>

lemma toFixed2_NaN: "toFixed2 d = NaN \<longleftrightarrow> d = NaN"
  by (cases d) (simp_all only: toFixed2.simps jsnum.distinct jsnum.simps split: if_split, auto)

lemma positive_minus_distinct: "positive (minus_num v w) \<Longrightarrow> v \<noteq> w"
  by (cases v; cases w) auto

lemma positive_minus_le: "positive (minus_num v w) \<Longrightarrow> le_num w v"
  by (cases v; cases w) auto

lemma not_positive_minus_le:
  "v \<noteq> NaN \<Longrightarrow> w \<noteq> NaN \<Longrightarrow> \<not> positive (minus_num v w) \<Longrightarrow> le_num v w"
  by (cases v; cases w) auto

lemma le_num_trans: "le_num u v \<Longrightarrow> le_num v w \<Longrightarrow> le_num u w"
  by (cases u; cases v; cases w) auto

lemma set_insertSorted: "set (insertSorted cmp x ys) = insert x (set ys)"
  by (induction ys) auto

lemma mset_insertSorted: "mset (insertSorted cmp x ys) = add_mset x (mset ys)"
  by (induction ys) auto

lemma mset_Array_sort: "mset (Array_sort cmp xs) = mset xs"
  by (induction xs) (auto simp: mset_insertSorted)

lemma filter_insertSorted:
  "filter (\<lambda>r. distance r = d) (insertSorted byDistance x ys) =
   filter (\<lambda>r. distance r = d) (x # ys)"
proof (induction ys)
  case Nil
  show ?case by simp
next
  case (Cons y ys)
  show ?case
  proof (cases "positive (byDistance x y)")
    case True
    then have "distance x \<noteq> distance y"
      by (simp add: byDistance_def positive_minus_distinct)
    with True Cons show ?thesis by auto
  next
    case False
    then show ?thesis by simp
  qed
qed

lemma filter_Array_sort:
  "filter (\<lambda>r. distance r = d) (Array_sort byDistance xs) = filter (\<lambda>r. distance r = d) xs"
  by (induction xs) (simp_all add: filter_insertSorted)

lemma sorted_insertSorted:
  assumes "\<forall>r \<in> set (x # ys). distance r \<noteq> NaN"
    and "sorted_wrt (\<lambda>a b. le_num (distance a) (distance b)) ys"
  shows "sorted_wrt (\<lambda>a b. le_num (distance a) (distance b)) (insertSorted byDistance x ys)"
  using assms
proof (induction ys)
  case Nil
  show ?case by simp
next
  case (Cons y ys)
  have n: "distance x \<noteq> NaN" "distance y \<noteq> NaN"
    using Cons.prems(1) by auto
  show ?case
  proof (cases "positive (byDistance x y)")
    case True
    then have "le_num (distance y) (distance x)"
      by (simp add: byDistance_def positive_minus_le)
    moreover have "sorted_wrt (\<lambda>a b. le_num (distance a) (distance b)) (insertSorted byDistance x ys)"
      using Cons by simp
    ultimately show ?thesis using True Cons.prems(2) by (auto simp: set_insertSorted)
  next
    case False
    then have xy: "le_num (distance x) (distance y)"
      using n by (simp add: byDistance_def not_positive_minus_le)
    have "le_num (distance x) (distance z)" if "z \<in> set ys" for z
    proof -
      have "le_num (distance y) (distance z)" using Cons.prems(2) that by simp
      with xy show ?thesis by (rule le_num_trans)
    qed
    then show ?thesis using False Cons.prems(2) xy by simp
  qed
qed

lemma sorted_Array_sort:
  "\<forall>r \<in> set xs. distance r \<noteq> NaN \<Longrightarrow>
   sorted_wrt (\<lambda>a b. le_num (distance a) (distance b)) (Array_sort byDistance xs)"
proof (induction xs)
  case Nil
  show ?case by simp
next
  case (Cons x xs)
  then have "sorted_wrt (\<lambda>a b. le_num (distance a) (distance b)) (Array_sort byDistance xs)"
    by simp
  moreover have "set (Array_sort byDistance xs) = set xs"
    using mset_Array_sort[of byDistance xs] by (metis set_mset_mset)
  then have "\<forall>r \<in> set (x # Array_sort byDistance xs). distance r \<noteq> NaN"
    using Cons.prems by simp
  ultimately show ?case by (simp add: sorted_insertSorted del: set_simps)
qed

text \<open>What the handler lists is the ranking of the whole table from the validated point.\<close>

lemma listSchools_Listed:
  assumes "listSchools fp lat_query lon_query st = (Listed userLat userLon n out, st')"
  shows "validateCoordinates lat_query lon_query = Valid userLat userLon \<and>
         out = rankSchools fp userLat userLon (rows st) \<and> n = length out"
  using assms
  by (auto simp: listSchools_def selectAll_def Let_def split_beta
      split: validation.splits option.splits if_splits)

text \<open>
  C2, amended. Whatever the arithmetic, when no computed distance is NaN the ranked
  output is ordered by the distance attached to each record, which is the distance
  rounded to two decimals: the rounding is done by the map, before the sort. The output
  is a rearrangement of the records with their distances, ascending in the attached
  distance, and the records with one and the same attached distance keep the order they
  had in the input. Nothing is said of a list in which a distance is NaN.
\<close>

theorem C2_sorted_by_rounded_distance:
  assumes "\<forall>s \<in> set schools.
             calculateDistance fp (Fin userLat) (Fin userLon)
               (Fin (row_latitude s)) (Fin (row_longitude s)) \<noteq> NaN"
  shows "sorted_wrt (\<lambda>a b. le_num (distance a) (distance b))
           (rankSchools fp userLat userLon schools) \<and>
         (\<forall>d. filter (\<lambda>r. distance r = d) (rankSchools fp userLat userLon schools) =
              filter (\<lambda>r. distance r = d) (map (withDistance fp userLat userLon) schools)) \<and>
         mset (rankSchools fp userLat userLon schools) =
           mset (map (withDistance fp userLat userLon) schools) \<and>
         map distance (map (withDistance fp userLat userLon) schools) =
           map (\<lambda>s. toFixed2 (calculateDistance fp (Fin userLat) (Fin userLon)
                                (Fin (row_latitude s)) (Fin (row_longitude s)))) schools"
proof -
  have "\<forall>r \<in> set (map (withDistance fp userLat userLon) schools). distance r \<noteq> NaN"
    using assms by (auto simp: withDistance_def toFixed2_NaN)
  then show ?thesis
    by (simp add: rankSchools_def sorted_Array_sort filter_Array_sort mset_Array_sort withDistance_def
        del: set_map)
qed


subsection \<open>Distances along the equator, without rounding\<close>

text \<open>
  From the origin to a point of the equator at longitude \<open>x\<close>, for \<open>0 \<le> x < 180\<close>,
  the distance without rounding is the arc \<open>R x \<pi> / 180\<close>.
\<close>

lemma equator_distance:
  assumes "0 \<le> x" "x < 180"
  shows "calculateDistance exact (Fin 0) (Fin 0) (Fin 0) (Fin x) = Fin (6371 * (x * pi / 180))"
proof -
  define t where "t = x * pi / 180 / 2"
  have t: "0 \<le> t" "t < pi / 2"
    using assms pi_gt_zero by (simp_all add: t_def)
  have s: "0 \<le> sin t" using t by (intro sin_ge_zero) simp_all
  have c: "0 < cos t" using t by (intro cos_gt_zero_pi) simp_all
  have cc: "1 - sin t * sin t = cos t * cos t"
    using sin_cos_squared_add[of t] by (simp add: power2_eq_square algebra_simps)
  have sa: "exact_sqrt (Fin (sin t * sin t)) = Fin (sin t)"
    using s by (simp add: not_less)
  have sb: "exact_sqrt (Fin (1 - sin t * sin t)) = Fin (cos t)"
    unfolding cc using c by (simp add: not_less)
  have "arctan (sin t / cos t) = t"
    using arctan_tan[of t] t by (simp add: tan_def)
  then have at: "real_atan2 (sin t) (cos t) = t" using c by (simp add: real_atan2_def)
  have a: "fadd exact
             (fmul exact (fsin exact (fdiv exact (toRadians exact (fsub exact (Fin 0) (Fin 0))) (Fin 2)))
                (fsin exact (fdiv exact (toRadians exact (fsub exact (Fin 0) (Fin 0))) (Fin 2))))
             (fmul exact
                (fmul exact
                   (fmul exact
                      (fsin exact (fdiv exact (toRadians exact (fsub exact (Fin x) (Fin 0))) (Fin 2)))
                      (fsin exact (fdiv exact (toRadians exact (fsub exact (Fin x) (Fin 0))) (Fin 2))))
                   (fcos exact (toRadians exact (Fin 0))))
                (fcos exact (toRadians exact (Fin 0)))) = Fin (sin t * sin t)"
    by (simp add: exact_def toRadians_def t_def)
  have e: "fsqrt exact = exact_sqrt" "fsub exact (Fin 1) (Fin (sin t * sin t)) = Fin (1 - sin t * sin t)"
    by (simp_all add: exact_def)
  show ?thesis
    unfolding calculateDistance_def Let_def a e sa sb
    by (simp add: exact_def at, simp add: t_def)
qed

lemma toFixed2_small:
  assumes "0 \<le> d" "d < 1 / 200"
  shows "toFixed2 (Fin d) = Fin 0"
proof -
  have "\<lfloor>d * 100 + 1 / 2\<rfloor> = 0" using assms by (simp add: floor_eq_iff)
  moreover have "\<not> 10 ^ 21 \<le> \<bar>d\<bar>" using assms by simp
  ultimately show ?thesis using assms by simp
qed

lemma toFixed2_cent:
  assumes "1 / 200 \<le> d" "d < 3 / 200"
  shows "toFixed2 (Fin d) = Fin (1 / 100)"
proof -
  have "\<lfloor>d * 100 + 1 / 2\<rfloor> = 1" using assms by (simp add: floor_eq_iff)
  moreover have "\<not> 10 ^ 21 \<le> \<bar>d\<bar>" "\<not> d < 0" using assms by simp_all
  ultimately show ?thesis by simp
qed

lemma near_school_raw:
  "calculateDistance exact (Fin 0) (Fin 0) (Fin (row_latitude near_school))
     (Fin (row_longitude near_school)) = Fin 0"
  using equator_distance[of 0] by (simp add: near_school_def)

lemma far_school_raw:
  "calculateDistance exact (Fin 0) (Fin 0) (Fin (row_latitude far_school))
     (Fin (row_longitude far_school)) = Fin (6371 * pi / 18000000)"
  using equator_distance[of "1 / 100000"] by (simp add: far_school_def)

lemma east_school_raw:
  "calculateDistance exact (Fin 0) (Fin 0) (Fin (row_latitude east_school))
     (Fin (row_longitude east_school)) = Fin (108307 * pi / 36000000)"
  using equator_distance[of "17 / 200000"] by (simp add: east_school_def)

lemma east_twin_raw:
  "calculateDistance exact (Fin 0) (Fin 0) (Fin (row_latitude east_twin))
     (Fin (row_longitude east_twin)) = Fin (108307 * pi / 36000000)"
  using equator_distance[of "17 / 200000"] by (simp add: east_twin_def)

lemma far_rounded: "toFixed2 (Fin (6371 * pi / 18000000)) = Fin 0"
  using pi_gt_zero pi_less_4 by (intro toFixed2_small) simp_all

lemma east_rounded: "toFixed2 (Fin (108307 * pi / 36000000)) = Fin (1 / 100)"
  using pi_ge_two pi_less_4 by (intro toFixed2_cent) simp_all

lemma listed_distances:
  "distance (withDistance exact 0 0 near_school) = Fin 0"
  "distance (withDistance exact 0 0 far_school) = Fin 0"
  "distance (withDistance exact 0 0 east_school) = Fin (1 / 100)"
  "distance (withDistance exact 0 0 east_twin) = Fin (1 / 100)"
  unfolding withDistance_def near_school_raw far_school_raw east_school_raw east_twin_raw
    far_rounded east_rounded
  by simp_all

text \<open>
  C2, counterexample. From the origin, the row at the origin is nearer than the row a
  hundred-thousandth of a degree east, about 1.1 metres away. Both distances round to
  0.00, the sort compares the rounded values, and the farther row stays first: the output
  is not ascending in the distance from the reference point, as it would be had the sort
  been done before the rounding.
\<close>

theorem C2_counterexample:
  "rankSchools exact 0 0 [far_school, near_school] =
     [withDistance exact 0 0 far_school, withDistance exact 0 0 near_school] \<and>
   distance (withDistance exact 0 0 far_school) = Fin 0 \<and>
   distance (withDistance exact 0 0 near_school) = Fin 0 \<and>
   calculateDistance exact (Fin 0) (Fin 0) (Fin (row_latitude far_school))
     (Fin (row_longitude far_school)) = Fin (6371 * pi / 18000000) \<and>
   calculateDistance exact (Fin 0) (Fin 0) (Fin (row_latitude near_school))
     (Fin (row_longitude near_school)) = Fin 0 \<and>
   \<not> le_num (calculateDistance exact (Fin 0) (Fin 0) (Fin (row_latitude far_school))
              (Fin (row_longitude far_school)))
            (calculateDistance exact (Fin 0) (Fin 0) (Fin (row_latitude near_school))
              (Fin (row_longitude near_school)))"
proof -
  have "rankSchools exact 0 0 [far_school, near_school] =
          [withDistance exact 0 0 far_school, withDistance exact 0 0 near_school]"
    by (simp add: rankSchools_def byDistance_def listed_distances)
  then show ?thesis
    by (simp add: listed_distances far_school_raw near_school_raw not_le)
qed

text \<open>
  C2, witness. Four rows given in the order east, far, near, twin, with the attached
  distances 0.01, 0.00, 0.00 and 0.01: the output is far, near, east, twin. It is
  ascending, the sort has moved the row east behind two nearer rows, and within each
  pair of equal distances the input order is kept.
\<close>

theorem C2_sorted_by_rounded_distance_witness:
  "sorted_wrt (\<lambda>a b. le_num (distance a) (distance b))
     (rankSchools exact 0 0 [east_school, far_school, near_school, east_twin]) \<and>
   filter (\<lambda>r. distance r = Fin 0)
     (rankSchools exact 0 0 [east_school, far_school, near_school, east_twin]) =
     [withDistance exact 0 0 far_school, withDistance exact 0 0 near_school] \<and>
   filter (\<lambda>r. distance r = Fin (1 / 100))
     (rankSchools exact 0 0 [east_school, far_school, near_school, east_twin]) =
     [withDistance exact 0 0 east_school, withDistance exact 0 0 east_twin] \<and>
   map row_id (rankSchools exact 0 0 [east_school, far_school, near_school, east_twin]) =
     [1, 2, 3, 4]"
proof -
  have h: "\<forall>s \<in> set [east_school, far_school, near_school, east_twin].
             calculateDistance exact (Fin 0) (Fin 0)
               (Fin (row_latitude s)) (Fin (row_longitude s)) \<noteq> NaN"
    by (simp add: near_school_raw far_school_raw east_school_raw east_twin_raw)
  note t = C2_sorted_by_rounded_distance[OF h]
  have s: "sorted_wrt (\<lambda>a b. le_num (distance a) (distance b))
             (rankSchools exact 0 0 [east_school, far_school, near_school, east_twin])"
    using t by blast
  have f: "filter (\<lambda>r. distance r = d)
             (rankSchools exact 0 0 [east_school, far_school, near_school, east_twin]) =
           filter (\<lambda>r. distance r = d)
             (map (withDistance exact 0 0) [east_school, far_school, near_school, east_twin])" for d
    using t by blast
  have i: "map row_id (rankSchools exact 0 0 [east_school, far_school, near_school, east_twin]) =
             [1, 2, 3, 4]"
    by (simp add: rankSchools_def byDistance_def listed_distances)
      (simp add: withDistance_def near_school_def far_school_def east_school_def east_twin_def)
  show ?thesis
    using s i by (simp add: f listed_distances)
qed

subsection \<open>A distance that is NaN\<close>

text \<open>
  With a distance that is NaN the comparator returns NaN, which the sort takes as zero
  against every other row, and rows on its two sides are never brought in order.
\<close>

lemma nan_distance_blocks_sort:
  "Array_sort byDistance [entry 1 (Fin (11119 / 100)), entry 2 NaN, entry 3 (Fin 0)] =
     [entry 1 (Fin (11119 / 100)), entry 2 NaN, entry 3 (Fin 0)]"
  by (simp add: byDistance_def entry_def)

text \<open>
  The points \<open>(-12, -180)\<close> and \<open>(12, 0)\<close> are antipodal. Without rounding the
  quantity \<open>a\<close> is \<open>sin\<^sup>2 + cos\<^sup>2 = 1\<close> there, and the distance is \<open>R \<pi>\<close>, half
  the circumference. An arithmetic that rounds can bring the sum above 1; then \<open>1 - a\<close>
  is negative, its square root is NaN, and NaN is what \<open>calculateDistance\<close> returns.
\<close>

lemma antipodal_exact:
  "calculateDistance exact (Fin (- 12)) (Fin (- 180)) (Fin 12) (Fin 0) = Fin (6371 * pi)"
proof -
  have one: "sin (pi / 15) * sin (pi / 15) + cos (pi / 15) * cos (pi / 15) = 1"
    using sin_cos_squared_add[of "pi / 15"] by (simp add: power2_eq_square)
  have a: "fadd exact
             (fmul exact
                (fsin exact (fdiv exact (toRadians exact (fsub exact (Fin 12) (Fin (- 12)))) (Fin 2)))
                (fsin exact (fdiv exact (toRadians exact (fsub exact (Fin 12) (Fin (- 12)))) (Fin 2))))
             (fmul exact
                (fmul exact
                   (fmul exact
                      (fsin exact (fdiv exact (toRadians exact (fsub exact (Fin 0) (Fin (- 180)))) (Fin 2)))
                      (fsin exact (fdiv exact (toRadians exact (fsub exact (Fin 0) (Fin (- 180)))) (Fin 2))))
                   (fcos exact (toRadians exact (Fin (- 12)))))
                (fcos exact (toRadians exact (Fin 12)))) = Fin 1"
    using one by (simp add: exact_def toRadians_def)
  show ?thesis
    unfolding calculateDistance_def Let_def a
    by (simp add: exact_def real_atan2_def)
qed

end
